theory Spec2Isabelle
  imports Main "HOL-Library.Log_Nat"
begin

section \<open>Python values used by \<^verbatim>\<open>gro.py\<close>\<close>

text \<open>
  A Python \<^verbatim>\<open>str\<close> is a sequence of Unicode code points, so it is modelled as a list of
  natural numbers (the rupee sign is the single code point U+20B9 = 8377, not three
  bytes). \<open>str\<close> turns an ASCII literal into that representation.
\<close>

type_synonym pystr = "nat list"

definition str :: "string \<Rightarrow> pystr" where
  "str s = map of_char s"

definition RUPEE :: nat where
  "RUPEE = 8377"

definition HYPHEN :: nat where
  "HYPHEN = 45"

text \<open>Exceptions are values; a computation that may raise returns \<open>py_exn + 'a\<close>.\<close>

datatype py_exn =
    RequestException
  | KeyError
  | ValueError
  | OverflowError
  | IndexError
  | OtherException

text \<open>
  A Python \<^verbatim>\<open>float\<close> is an IEEE binary64 value. A finite one is represented by the
  rational number it denotes (so \<open>-0.0\<close> and \<open>0.0\<close> coincide, as they do under every
  comparison the program makes); the two infinities and NaN are separate values.
\<close>

datatype pyfloat = Finite rat | PosInf | NegInf | NaN

subsection \<open>\<^verbatim>\<open>str.replace\<close>, \<^verbatim>\<open>str.strip\<close>, \<^verbatim>\<open>in\<close>, \<^verbatim>\<open>str.split\<close>\<close>

text \<open>
  \<^verbatim>\<open>s.replace(old, new)\<close>: the non-overlapping occurrences of \<open>old\<close>, found from the
  left, are replaced. With an empty \<open>old\<close>, Python inserts \<open>new\<close> before every character
  and at the end.
\<close>

function replace_from :: "pystr \<Rightarrow> pystr \<Rightarrow> pystr \<Rightarrow> pystr" where
  "replace_from old new [] = []"
| "replace_from old new (c # cs) =
     (if old \<noteq> [] \<and> take (length old) (c # cs) = old
      then new @ replace_from old new (drop (length old) (c # cs))
      else c # replace_from old new cs)"
  by pat_completeness auto
termination
  by (relation "measure (\<lambda>(old, new, s). length s)") (auto simp: neq_Nil_conv)

definition replace :: "pystr \<Rightarrow> pystr \<Rightarrow> pystr \<Rightarrow> pystr" where
  "replace s old new =
     (if old = [] then new @ concat (map (\<lambda>c. c # new) s) else replace_from old new s)"

text \<open>
  \<^verbatim>\<open>str.strip()\<close> without argument removes leading and trailing characters for which
  \<^verbatim>\<open>str.isspace\<close> holds (the table of Unicode 14, as shipped with CPython 3.11).
\<close>

definition unicode_isspace :: "nat \<Rightarrow> bool" where
  "unicode_isspace c \<longleftrightarrow>
     (9 \<le> c \<and> c \<le> 13) \<or> (28 \<le> c \<and> c \<le> 32) \<or> c = 133 \<or> c = 160 \<or> c = 5760 \<or>
     (8192 \<le> c \<and> c \<le> 8202) \<or> c = 8232 \<or> c = 8233 \<or> c = 8239 \<or> c = 8287 \<or> c = 12288"

definition strip :: "pystr \<Rightarrow> pystr" where
  "strip s = rev (dropWhile unicode_isspace (rev (dropWhile unicode_isspace s)))"

definition contains :: "nat \<Rightarrow> pystr \<Rightarrow> bool" where
  "contains c s \<longleftrightarrow> c \<in> set s"

text \<open>\<^verbatim>\<open>s.split(sep)\<close> for a one-character separator: always at least one part.\<close>

fun split :: "pystr \<Rightarrow> nat \<Rightarrow> pystr list" where
  "split [] sep = [[]]"
| "split (c # cs) sep =
     (if c = sep then [] # split cs sep
      else (case split cs sep of [] \<Rightarrow> [[c]] | p # ps \<Rightarrow> (c # p) # ps))"

text \<open>\<^verbatim>\<open>xs[i]\<close> for a non-negative index: \<^verbatim>\<open>IndexError\<close> out of range.\<close>

definition getitem :: "'a list \<Rightarrow> nat \<Rightarrow> py_exn + 'a" where
  "getitem xs i = (if i < length xs then Inr (xs ! i) else Inl IndexError)"

subsection \<open>The builtin \<^verbatim>\<open>float(str)\<close>\<close>

text \<open>
  CPython first maps every Unicode space to an ASCII space and every Unicode decimal digit
  (general category Nd) to its ASCII digit; at the first other non-ASCII character it
  writes \<^verbatim>\<open>?\<close> and stops. A string that is ASCII already is taken as it is. The Nd
  characters come in runs of ten; \<open>nd_zeros\<close> lists the zero of each run (Unicode 14).
\<close>

definition nd_zeros :: "nat list" where
  "nd_zeros = [48, 1632, 1776, 1984, 2406, 2534, 2662, 2790, 2918, 3046, 3174, 3302, 3430,
     3558, 3664, 3792, 3872, 4160, 4240, 6112, 6160, 6470, 6608, 6784, 6800, 6992, 7088, 7232,
     7248, 42528, 43216, 43264, 43472, 43504, 43600, 44016, 65296, 66720, 68912, 69734, 69872,
     69942, 70096, 70384, 70736, 70864, 71248, 71360, 71472, 71904, 72016, 72784, 73040, 73120,
     92768, 92864, 93008, 120782, 120792, 120802, 120812, 120822, 123200, 123632, 125264,
     130032]"

definition unicode_todecimal :: "nat \<Rightarrow> nat option" where
  "unicode_todecimal c =
     (case find (\<lambda>z. z \<le> c \<and> c < z + 10) nd_zeros of
        None \<Rightarrow> None
      | Some z \<Rightarrow> Some (c - z))"

fun transform_chars :: "pystr \<Rightarrow> pystr" where
  "transform_chars [] = []"
| "transform_chars (ch # rest) =
     (if ch < 127 then ch # transform_chars rest
      else if unicode_isspace ch then 32 # transform_chars rest
      else (case unicode_todecimal ch of
              None \<Rightarrow> [63]
            | Some d \<Rightarrow> (48 + d) # transform_chars rest))"

definition transform_decimal_and_space_to_ascii :: "pystr \<Rightarrow> pystr" where
  "transform_decimal_and_space_to_ascii s =
     (if list_all (\<lambda>c. c < 128) s then s else transform_chars s)"

definition is_digit :: "nat \<Rightarrow> bool" where
  "is_digit c \<longleftrightarrow> 48 \<le> c \<and> c \<le> 57"

text \<open>
  Underscores are dropped when each stands between two digits; any other underscore is a
  \<^verbatim>\<open>ValueError\<close> (here \<open>None\<close>). \<open>prev\<close> is the character read before, 0 at the start.
\<close>

fun drop_underscores :: "nat \<Rightarrow> pystr \<Rightarrow> pystr option" where
  "drop_underscores prev [] = (if prev = 95 then None else Some [])"
| "drop_underscores prev (p # ps) =
     (if p = 95 then (if is_digit prev then drop_underscores p ps else None)
      else if prev = 95 \<and> \<not> is_digit p then None
      else map_option ((#) p) (drop_underscores p ps))"

definition string_to_number_with_underscores :: "pystr \<Rightarrow> pystr option" where
  "string_to_number_with_underscores s =
     (if 95 \<in> set s then drop_underscores 0 s else Some s)"

text \<open>\<^verbatim>\<open>Py_ISSPACE\<close>: the six ASCII white-space characters of the C locale.\<close>

definition c_isspace :: "nat \<Rightarrow> bool" where
  "c_isspace c \<longleftrightarrow> c = 32 \<or> (9 \<le> c \<and> c \<le> 13)"

definition strip_c_space :: "pystr \<Rightarrow> pystr" where
  "strip_c_space s = rev (dropWhile c_isspace (rev (dropWhile c_isspace s)))"

definition parse_sign :: "pystr \<Rightarrow> bool \<times> pystr" where
  "parse_sign s =
     (case s of
        [] \<Rightarrow> (False, [])
      | c # cs \<Rightarrow> if c = 45 then (True, cs) else if c = 43 then (False, cs) else (False, s))"

definition ascii_lower :: "nat \<Rightarrow> nat" where
  "ascii_lower c = (if 65 \<le> c \<and> c \<le> 90 then c + 32 else c)"

text \<open>\<^verbatim>\<open>inf\<close>, \<^verbatim>\<open>infinity\<close> and \<^verbatim>\<open>nan\<close>, in any case, with an optional sign.\<close>

definition parse_inf_or_nan :: "pystr \<Rightarrow> pyfloat option" where
  "parse_inf_or_nan s =
     (let (neg, r) = parse_sign s; w = map ascii_lower r
      in if w = str ''inf'' \<or> w = str ''infinity'' then Some (if neg then NegInf else PosInf)
         else if w = str ''nan'' then Some NaN
         else None)"

fun digits_value :: "nat \<Rightarrow> pystr \<Rightarrow> nat" where
  "digits_value acc [] = acc"
| "digits_value acc (d # ds) = digits_value (10 * acc + (d - 48)) ds"

text \<open>The exponent part: nothing, or \<^verbatim>\<open>e\<close>/\<^verbatim>\<open>E\<close>, an optional sign and at least one digit.\<close>

definition parse_exponent :: "pystr \<Rightarrow> int option" where
  "parse_exponent s =
     (case s of
        [] \<Rightarrow> Some 0
      | c # cs \<Rightarrow>
          if c = 101 \<or> c = 69 then
            (let (neg, ds) = parse_sign cs
             in if ds \<noteq> [] \<and> list_all is_digit ds
                then Some (if neg then - int (digits_value 0 ds) else int (digits_value 0 ds))
                else None)
          else None)"

definition scale10 :: "rat \<Rightarrow> int \<Rightarrow> rat" where
  "scale10 m e = (if 0 \<le> e then m * 10 ^ nat e else m / 10 ^ nat (- e))"

text \<open>
  The decimal literal: sign, digits, optional point and digits (a digit on one side of
  the point at least), optional exponent, and nothing after it. The result is the exact
  rational value of the literal.
\<close>

definition parse_decimal :: "pystr \<Rightarrow> rat option" where
  "parse_decimal s =
     (let (neg, r) = parse_sign s;
          ip = takeWhile is_digit r;
          r1 = dropWhile is_digit r;
          (fp, r2) = (case r1 of
                        [] \<Rightarrow> ([], [])
                      | c # cs \<Rightarrow> if c = 46 then (takeWhile is_digit cs, dropWhile is_digit cs)
                                  else ([], r1))
      in if ip = [] \<and> fp = [] then None
         else (case parse_exponent r2 of
                 None \<Rightarrow> None
               | Some e \<Rightarrow>
                   (let m = scale10 (of_nat (digits_value 0 (ip @ fp))) (e - int (length fp))
                    in Some (if neg then - m else m))))"

text \<open>
  Rounding to binary64, to nearest with ties to even: a value in \<open>[2^e, 2^(e+1))\<close> is a
  multiple of \<open>2^(e-52)\<close>, of \<open>2^(-1074)\<close> below the normal range; a result of \<open>2^1024\<close>
  or more is an infinity.
\<close>

definition pow2 :: "int \<Rightarrow> rat" where
  "pow2 e = (if 0 \<le> e then 2 ^ nat e else 1 / 2 ^ nat (- e))"

definition ilog2 :: "rat \<Rightarrow> int" where
  "ilog2 a =
     (let (p, q) = quotient_of a; d = bitlen p - bitlen q
      in if pow2 d \<le> a then d else d - 1)"

definition round_half_even :: "rat \<Rightarrow> int" where
  "round_half_even x =
     (let f = \<lfloor>x\<rfloor>; d = x - of_int f
      in if d < 1 / 2 then f else if 1 / 2 < d then f + 1 else if even f then f else f + 1)"

definition round_binary64 :: "rat \<Rightarrow> pyfloat" where
  "round_binary64 x =
     (if x = 0 then Finite 0
      else (let a = \<bar>x\<bar>;
                quantum = pow2 (max (ilog2 a) (- 1022) - 52);
                v = of_int (round_half_even (a / quantum)) * quantum
            in if pow2 1024 \<le> v then (if x < 0 then NegInf else PosInf)
               else Finite (if x < 0 then - v else v)))"

definition py_float :: "pystr \<Rightarrow> py_exn + pyfloat" where
  "py_float s =
     (case string_to_number_with_underscores (transform_decimal_and_space_to_ascii s) of
        None \<Rightarrow> Inl ValueError
      | Some u \<Rightarrow>
          (let v = strip_c_space u
           in case parse_decimal v of
                Some x \<Rightarrow> Inr (round_binary64 x)
              | None \<Rightarrow>
                  (case parse_inf_or_nan v of
                     Some y \<Rightarrow> Inr y
                   | None \<Rightarrow> Inl ValueError)))"

section \<open>\<^verbatim>\<open>parse_price\<close>\<close>

text \<open>
  Lines 14 to 18, the body of the \<^verbatim>\<open>try\<close>: \<open>cleaned\<close> is the value of \<^verbatim>\<open>price\<close> after
  line 14, \<open>parse_price_try\<close> the whole block, with the exception it may raise.
\<close>

definition cleaned :: "pystr \<Rightarrow> pystr" where
  "cleaned price_str = strip (replace (replace price_str [RUPEE] []) (str ''per kg'') [])"

definition parse_price_try :: "pystr \<Rightarrow> py_exn + pyfloat" where
  "parse_price_try price_str =
     (let price = cleaned price_str
      in if contains HYPHEN price
         then (case getitem (split price HYPHEN) 0 of
                 Inl e \<Rightarrow> Inl e
               | Inr price' \<Rightarrow> py_float price')
         else py_float price)"

text \<open>
  The bare \<^verbatim>\<open>except:\<close> turns every exception into \<^verbatim>\<open>None\<close>. The outer sum is what
  reaches the caller: \<open>Inl\<close> would be an exception leaving \<^verbatim>\<open>parse_price\<close>.
\<close>

definition parse_price :: "pystr \<Rightarrow> py_exn + pyfloat option" where
  "parse_price price_str =
     (case parse_price_try price_str of
        Inr x \<Rightarrow> Inr (Some x)
      | Inl e \<Rightarrow> Inr None)"

section \<open>Values used by the dashboard\<close>

subsection \<open>Float comparison, \<^verbatim>\<open>int(float)\<close>, \<^verbatim>\<open>range\<close>, \<^verbatim>\<open>str(int)\<close>\<close>

text \<open>IEEE comparison: every comparison with NaN is false.\<close>

fun float_le :: "pyfloat \<Rightarrow> pyfloat \<Rightarrow> bool" where
  "float_le NaN y = False"
| "float_le x NaN = False"
| "float_le NegInf y = True"
| "float_le x PosInf = True"
| "float_le (Finite a) (Finite b) = (a \<le> b)"
| "float_le PosInf y = False"
| "float_le x NegInf = False"

definition float_ge :: "pyfloat \<Rightarrow> pyfloat \<Rightarrow> bool" where
  "float_ge x y = float_le y x"

text \<open>
  \<^verbatim>\<open>int(x)\<close> truncates towards zero; NaN is a \<^verbatim>\<open>ValueError\<close>, an infinity an
  \<^verbatim>\<open>OverflowError\<close>.
\<close>

definition py_int :: "pyfloat \<Rightarrow> py_exn + int" where
  "py_int x =
     (case x of
        Finite q \<Rightarrow> Inr (if 0 \<le> q then \<lfloor>q\<rfloor> else \<lceil>q\<rceil>)
      | PosInf \<Rightarrow> Inl OverflowError
      | NegInf \<Rightarrow> Inl OverflowError
      | NaN \<Rightarrow> Inl ValueError)"

text \<open>\<^verbatim>\<open>range(start, stop, step)\<close> for a positive step.\<close>

definition py_range :: "int \<Rightarrow> int \<Rightarrow> int \<Rightarrow> int list" where
  "py_range start stop step =
     map (\<lambda>k. start + int k * step) [0 ..< nat ((stop - start + step - 1) div step)]"

fun nat_digits :: "nat \<Rightarrow> pystr" where
  "nat_digits n = (if n < 10 then [48 + n] else nat_digits (n div 10) @ [48 + n mod 10])"

declare nat_digits.simps [simp del]

definition py_str_int :: "int \<Rightarrow> pystr" where
  "py_str_int i = (if i < 0 then 45 # nat_digits (nat (- i)) else nat_digits (nat i))"

text \<open>The sequencing of computations that may raise.\<close>

definition bind :: "py_exn + 'a \<Rightarrow> ('a \<Rightarrow> py_exn + 'b) \<Rightarrow> py_exn + 'b" where
  "bind m f = (case m of Inl e \<Rightarrow> Inl e | Inr x \<Rightarrow> f x)"

subsection \<open>The pandas \<^verbatim>\<open>DataFrame\<close> of price records\<close>

text \<open>
  One dictionary appended at lines 42 to 46, with its three keys. A \<^verbatim>\<open>DataFrame\<close>
  built from a list of such dictionaries has their keys as columns; built from an empty
  list, or from nothing, it has no column at all.
\<close>

record price_record =
  Vegetable :: pystr
  Price_Range :: pystr
  Min_Price :: pyfloat

record dataframe =
  df_columns :: "string list"
  df_rows :: "price_record list"

definition pd_DataFrame :: "price_record list \<Rightarrow> dataframe" where
  "pd_DataFrame data =
     \<lparr>df_columns = (if data = [] then [] else [''Vegetable'', ''Price Range'', ''Min Price'']),
      df_rows = data\<rparr>"

text \<open>\<^verbatim>\<open>df['Min Price']\<close>: the column as a series, \<^verbatim>\<open>KeyError\<close> when there is none.\<close>

definition Min_Price_column :: "dataframe \<Rightarrow> py_exn + pyfloat list" where
  "Min_Price_column df =
     (if ''Min Price'' \<in> set (df_columns df) then Inr (map Min_Price (df_rows df)) else Inl KeyError)"

text \<open>
  \<^verbatim>\<open>Series.min()\<close> and \<^verbatim>\<open>Series.max()\<close> skip NaN; with nothing left the result is NaN.
\<close>

definition float_min :: "pyfloat \<Rightarrow> pyfloat \<Rightarrow> pyfloat" where
  "float_min x acc = (if float_le x acc then x else acc)"

definition float_max :: "pyfloat \<Rightarrow> pyfloat \<Rightarrow> pyfloat" where
  "float_max x acc = (if float_le acc x then x else acc)"

definition series_min :: "pyfloat list \<Rightarrow> pyfloat" where
  "series_min xs =
     (case filter (\<lambda>x. x \<noteq> NaN) xs of [] \<Rightarrow> NaN | y # ys \<Rightarrow> fold float_min ys y)"

definition series_max :: "pyfloat list \<Rightarrow> pyfloat" where
  "series_max xs =
     (case filter (\<lambda>x. x \<noteq> NaN) xs of [] \<Rightarrow> NaN | y # ys \<Rightarrow> fold float_max ys y)"

text \<open>\<^verbatim>\<open>df[mask]\<close>: the rows at which the boolean series is true, in their order.\<close>

definition boolean_index :: "dataframe \<Rightarrow> bool list \<Rightarrow> dataframe" where
  "boolean_index df keep = df\<lparr>df_rows := map fst (filter snd (zip (df_rows df) keep))\<rparr>"

section \<open>\<^verbatim>\<open>scrape_vegetable_prices\<close>\<close>

text \<open>
  What the network and the HTML parser hand to the function: \<^verbatim>\<open>requests.get\<close> raises,
  or returns a response with a status code whose document has, or has not, a table of the
  wanted class. A table is the list of its \<^verbatim>\<open>tr\<close> elements, a row the list of the texts
  of its \<^verbatim>\<open>td\<close> elements.
\<close>

type_synonym tr = "pystr list"

datatype http_outcome =
    GetRaises py_exn
  | GetReturns nat "tr list option"

text \<open>\<^verbatim>\<open>raise_for_status\<close> raises \<^verbatim>\<open>HTTPError\<close>, a \<^verbatim>\<open>RequestException\<close>, on 4xx and 5xx.\<close>

definition raise_for_status :: "nat \<Rightarrow> py_exn + unit" where
  "raise_for_status status =
     (if 400 \<le> status \<and> status < 600 then Inl RequestException else Inr ())"

text \<open>The loop of lines 35 to 46 over the rows left, \<open>data\<close> being the list built so far.\<close>

fun scrape_rows :: "tr list \<Rightarrow> price_record list \<Rightarrow> py_exn + price_record list" where
  "scrape_rows [] data = Inr data"
| "scrape_rows (columns # rest) data =
     (if 3 \<le> length columns then
        (let vegetable_name = strip (columns ! 1);
             price_range = strip (columns ! 2)
         in case parse_price price_range of
              Inl e \<Rightarrow> Inl e
            | Inr None \<Rightarrow> scrape_rows rest data
            | Inr (Some price) \<Rightarrow>
                scrape_rows rest
                  (data @ [\<lparr>Vegetable = vegetable_name, Price_Range = price_range,
                            Min_Price = price\<rparr>]))
      else scrape_rows rest data)"

definition scrape_try :: "http_outcome \<Rightarrow> py_exn + dataframe" where
  "scrape_try response =
     (case response of
        GetRaises e \<Rightarrow> Inl e
      | GetReturns status table \<Rightarrow>
          bind (raise_for_status status) (\<lambda>_.
          bind (case table of None \<Rightarrow> Inr [] | Some t \<Rightarrow> scrape_rows (drop 2 t) []) (\<lambda>data.
          Inr (pd_DataFrame data))))"

text \<open>
  Only a \<^verbatim>\<open>RequestException\<close> is caught (the message printed then is not modelled); any
  other exception leaves the function.
\<close>

definition scrape_vegetable_prices :: "http_outcome \<Rightarrow> py_exn + dataframe" where
  "scrape_vegetable_prices response =
     (case scrape_try response of
        Inr df \<Rightarrow> Inr df
      | Inl e \<Rightarrow> if e = RequestException then Inr (pd_DataFrame []) else Inl e)"

section \<open>\<^verbatim>\<open>create_dashboard\<close> and its callback \<^verbatim>\<open>update_charts\<close>\<close>

text \<open>
  Of the layout, the parts computed from the data: the range slider and the rows of the
  table. The arguments of \<^verbatim>\<open>RangeSlider\<close> are evaluated in the order written, each
  reading the column again. \<open>dashboard_for\<close> is \<^verbatim>\<open>create_dashboard\<close> from line 60 on,
  with the frame that line 58 has bound to \<^verbatim>\<open>df\<close>; \<open>callback_df\<close> is the frame the
  callback registered at line 120 closes over.
\<close>

record range_slider =
  slider_min :: pyfloat
  slider_max :: pyfloat
  slider_value :: "pyfloat list"
  slider_marks :: "(int \<times> pystr) list"
  slider_step :: nat

record dashboard =
  price_filter :: range_slider
  price_table :: "price_record list"
  callback_df :: dataframe

definition dashboard_for :: "dataframe \<Rightarrow> py_exn + dashboard" where
  "dashboard_for df =
     bind (Min_Price_column df) (\<lambda>c1.
     bind (Min_Price_column df) (\<lambda>c2.
     bind (Min_Price_column df) (\<lambda>c3.
     bind (Min_Price_column df) (\<lambda>c4.
     bind (Min_Price_column df) (\<lambda>c5.
     bind (py_int (series_min c5)) (\<lambda>start.
     bind (Min_Price_column df) (\<lambda>c6.
     bind (py_int (series_max c6)) (\<lambda>stop.
     Inr \<lparr>price_filter =
            \<lparr>slider_min = series_min c1,
             slider_max = series_max c2,
             slider_value = [series_min c3, series_max c4],
             slider_marks = map (\<lambda>i. (i, RUPEE # py_str_int i)) (py_range start stop 20),
             slider_step = 5\<rparr>,
          price_table = df_rows df,
          callback_df = df\<rparr>))))))))"

definition create_dashboard :: "http_outcome \<Rightarrow> py_exn + dashboard" where
  "create_dashboard response = bind (scrape_vegetable_prices response) dashboard_for"

text \<open>
  The two figures hold the data they were given: the bar chart the names, the prices and
  the prices again as colours, the histogram the prices and its number of bins.
\<close>

record bar_figure =
  bar_x :: "pystr list"
  bar_y :: "pyfloat list"
  bar_color :: "pyfloat list"

record histogram_figure =
  hist_x :: "pyfloat list"
  hist_nbins :: nat

definition px_bar :: "dataframe \<Rightarrow> bar_figure" where
  "px_bar d =
     \<lparr>bar_x = map Vegetable (df_rows d), bar_y = map Min_Price (df_rows d),
      bar_color = map Min_Price (df_rows d)\<rparr>"

definition px_histogram :: "dataframe \<Rightarrow> histogram_figure" where
  "px_histogram d = \<lparr>hist_x = map Min_Price (df_rows d), hist_nbins = 20\<rparr>"

text \<open>
  The callback is a closure over \<^verbatim>\<open>df\<close>; it exists once \<^verbatim>\<open>create_dashboard\<close> has
  returned, with \<open>callback_df\<close> as its \<^verbatim>\<open>df\<close>.
\<close>

definition update_charts ::
  "dataframe \<Rightarrow> pyfloat list \<Rightarrow> py_exn + bar_figure \<times> histogram_figure \<times> price_record list"
where
  "update_charts df price_range =
     bind (Min_Price_column df) (\<lambda>c1.
     bind (getitem price_range 0) (\<lambda>low.
     bind (Min_Price_column df) (\<lambda>c2.
     bind (getitem price_range 1) (\<lambda>high.
     (let keep = map2 (\<and>) (map (\<lambda>v. float_ge v low) c1) (map (\<lambda>v. float_le v high) c2);
          filtered_df = boolean_index df keep
      in Inr (px_bar filtered_df, px_histogram filtered_df, df_rows filtered_df))))))"

section \<open>The specification's reading of a price text\<close>

text \<open>
  The specification takes ``the substring before the first hyphen'' of the stripped text
  as the candidate number. \<open>lower_bound_text\<close> is that substring, written after the
  specification's words, to be compared with what \<open>parse_price_try\<close> computes.
\<close>

definition lower_bound_text :: "pystr \<Rightarrow> pystr" where
  "lower_bound_text raw = takeWhile (\<lambda>c. c \<noteq> HYPHEN) (cleaned raw)"

text \<open>
  The specification's account of the scraper: a row with fewer than three cells, or whose
  price text does not parse, gives no record; any other row gives the record of the text
  of its second cell, the text of its third cell and the parsed price (the texts with
  surrounding blanks stripped, as lines 38 and 39 do). The dataset is made of the records
  of the rows after the first two, in their order.
\<close>

definition row_record :: "tr \<Rightarrow> price_record option" where
  "row_record cells =
     (if length cells < 3 then None
      else (case parse_price (strip (cells ! 2)) of
              Inr (Some p) \<Rightarrow>
                Some \<lparr>Vegetable = strip (cells ! 1), Price_Range = strip (cells ! 2),
                      Min_Price = p\<rparr>
            | _ \<Rightarrow> None))"

definition spec_dataset :: "tr list \<Rightarrow> price_record list" where
  "spec_dataset table = List.map_filter row_record (drop 2 table)"

text \<open>
  A fixture: two header rows, then three rows with a price that parses and one, the
  third, with a malformed price; and the three records expected from it.
\<close>

definition fixture_table :: "tr list" where
  "fixture_table =
     [[str ''S.No'', str ''Vegetable''],
      [str ''#'', str ''Name'', str ''Price''],
      [str ''1'', str '' Tomato '', RUPEE # str ''40-50 per kg''],
      [str ''2'', str ''Onion'', RUPEE # str ''45 per kg''],
      [str ''3'', str ''Potato'', str ''abc''],
      [str ''4'', str ''Carrot'', RUPEE # str ''30-20 per kg'']]"

definition fixture_records :: "price_record list" where
  "fixture_records =
     [\<lparr>Vegetable = str ''Tomato'', Price_Range = RUPEE # str ''40-50 per kg'',
       Min_Price = Finite 40\<rparr>,
      \<lparr>Vegetable = str ''Onion'', Price_Range = RUPEE # str ''45 per kg'',
       Min_Price = Finite 45\<rparr>,
      \<lparr>Vegetable = str ''Carrot'', Price_Range = RUPEE # str ''30-20 per kg'',
       Min_Price = Finite 30\<rparr>]"

text \<open>A table none of whose rows gives a record.\<close>

definition unparseable_table :: "tr list" where
  "unparseable_table =
     [[str ''S.No'', str ''Vegetable''],
      [str ''#'', str ''Name'', str ''Price''],
      [str ''1'', str ''Potato'', str ''abc''],
      [str ''2'', str ''Onion'']]"

text \<open>
  The ASCII characters that can stand in a text \<^verbatim>\<open>float\<close> accepts: digits, blanks, the
  signs, the point, the underscore, the exponent letter, and the letters of \<^verbatim>\<open>inf\<close>,
  \<^verbatim>\<open>infinity\<close> and \<^verbatim>\<open>nan\<close> in either case.
\<close>

definition float_ascii :: "nat \<Rightarrow> bool" where
  "float_ascii c \<longleftrightarrow>
     is_digit c \<or> c_isspace c \<or> c = 43 \<or> c = 45 \<or> c = 46 \<or> c = 95 \<or> c = 101 \<or> c = 69 \<or>
     ascii_lower c = 105 \<or> ascii_lower c = 110 \<or> ascii_lower c = 102 \<or>
     ascii_lower c = 116 \<or> ascii_lower c = 121 \<or> ascii_lower c = 97"

text \<open>
  The specification's filter: a record is kept when its price lies between the two ends
  of the range, both included.
\<close>

definition in_range :: "pyfloat \<Rightarrow> pyfloat \<Rightarrow> price_record \<Rightarrow> bool" where
  "in_range lo hi r \<longleftrightarrow> float_le lo (Min_Price r) \<and> float_le (Min_Price r) hi"

text \<open>The dashboard built over the records of the fixture.\<close>

definition fixture_dashboard :: dashboard where
  "fixture_dashboard =
     \<lparr>price_filter =
        \<lparr>slider_min = Finite 30, slider_max = Finite 45,
         slider_value = [Finite 30, Finite 45],
         slider_marks = [(30, RUPEE # str ''30'')], slider_step = 5\<rparr>,
      price_table = fixture_records,
      callback_df = pd_DataFrame fixture_records\<rparr>"

text \<open>
  A table one of whose price cells reads ``nan'', a text \<^verbatim>\<open>float\<close> accepts; the records
  scraped from it, and the dashboard built over them.
\<close>

definition nan_table :: "tr list" where
  "nan_table =
     [[str ''S.No'', str ''Vegetable''],
      [str ''#'', str ''Name'', str ''Price''],
      [str ''1'', str ''Potato'', str ''nan''],
      [str ''2'', str ''Onion'', RUPEE # str ''40-50 per kg'']]"

definition nan_records :: "price_record list" where
  "nan_records =
     [\<lparr>Vegetable = str ''Potato'', Price_Range = str ''nan'', Min_Price = NaN\<rparr>,
      \<lparr>Vegetable = str ''Onion'', Price_Range = RUPEE # str ''40-50 per kg'',
       Min_Price = Finite 40\<rparr>]"

definition nan_dashboard :: dashboard where
  "nan_dashboard =
     \<lparr>price_filter =
        \<lparr>slider_min = Finite 40, slider_max = Finite 40,
         slider_value = [Finite 40, Finite 40],
         slider_marks = [], slider_step = 5\<rparr>,
      price_table = nan_records,
      callback_df = pd_DataFrame nan_records\<rparr>"

text \<open>
  The numeric value of a text that \<^verbatim>\<open>float\<close> reads as a decimal number (sign, digits,
  point, exponent, after the folding of Unicode digits and blanks, the removal of
  underscores and of surrounding blanks): the exact rational it denotes, before rounding.
  The texts \<^verbatim>\<open>nan\<close>, \<^verbatim>\<open>inf\<close> and \<^verbatim>\<open>infinity\<close> have none.
\<close>

definition decimal_value :: "pystr \<Rightarrow> rat option" where
  "decimal_value s =
     (case string_to_number_with_underscores (transform_decimal_and_space_to_ascii s) of
        None \<Rightarrow> None
      | Some u \<Rightarrow> parse_decimal (strip_c_space u))"

section \<open>Properties of \<^verbatim>\<open>parse_price\<close>\<close>

lemma split_nonempty: "split s sep \<noteq> []"
  by (induction s) (auto split: list.splits)

lemma hd_split: "hd (split s sep) = takeWhile (\<lambda>c. c \<noteq> sep) s"
  by (induction s) (auto simp: split_nonempty split: list.splits)

lemma getitem_split_0: "getitem (split s sep) 0 = Inr (takeWhile (\<lambda>c. c \<noteq> sep) s)"
  using split_nonempty [of s sep] hd_split [of s sep]
  by (cases "split s sep") (auto simp: getitem_def)

text \<open>The branch on \<^verbatim>\<open>'-' in price\<close> and the split compute the text before the first hyphen.\<close>

lemma parse_price_try_lower_bound: "parse_price_try s = py_float (lower_bound_text s)"
proof (cases "contains HYPHEN (cleaned s)")
  case True
  then show ?thesis
    by (simp add: parse_price_try_def lower_bound_text_def getitem_split_0)
next
  case False
  then have tw: "takeWhile (\<lambda>c. c \<noteq> HYPHEN) (cleaned s) = cleaned s"
    by (auto simp: contains_def)
  from False show ?thesis
    by (simp add: parse_price_try_def lower_bound_text_def tw)
qed

lemma parse_price_eq:
  "parse_price s = Inr (case py_float (lower_bound_text s) of Inl e \<Rightarrow> None | Inr x \<Rightarrow> Some x)"
  by (simp add: parse_price_def parse_price_try_lower_bound split: sum.splits)

subsection \<open>Evaluation on concrete texts\<close>

lemmas py_float_eval = py_float_def str_def string_to_number_with_underscores_def
  transform_decimal_and_space_to_ascii_def strip_c_space_def c_isspace_def parse_decimal_def
  parse_sign_def is_digit_def parse_exponent_def scale10_def parse_inf_or_nan_def ascii_lower_def

lemmas cleaned_eval = cleaned_def replace_def str_def RUPEE_def HYPHEN_def strip_def
  unicode_isspace_def lower_bound_text_def

lemma bitlen_small: "bitlen 1 = 1" "bitlen 30 = 5" "bitlen 40 = 6" "bitlen 45 = 6"
  by (simp_all add: compute_bitlen)

lemma round_binary64_30: "round_binary64 30 = Finite 30"
  by (simp add: round_binary64_def ilog2_def pow2_def round_half_even_def bitlen_small)

lemma round_binary64_40: "round_binary64 40 = Finite 40"
  by (simp add: round_binary64_def ilog2_def pow2_def round_half_even_def bitlen_small)

lemma round_binary64_45: "round_binary64 45 = Finite 45"
  by (simp add: round_binary64_def ilog2_def pow2_def round_half_even_def bitlen_small)

lemma py_float_empty: "py_float [] = Inl ValueError"
  by (simp add: py_float_eval)

lemma py_float_30: "py_float (str ''30'') = Inr (Finite 30)"
  by (simp add: py_float_eval round_binary64_30)

lemma py_float_40: "py_float (str ''40'') = Inr (Finite 40)"
  by (simp add: py_float_eval round_binary64_40)

lemma py_float_45: "py_float (str ''45'') = Inr (Finite 45)"
  by (simp add: py_float_eval round_binary64_45)

lemma py_float_abc: "py_float (str ''abc'') = Inl ValueError"
  by (simp add: py_float_eval)

lemma py_float_nan: "py_float (str ''nan'') = Inr NaN"
  by (simp add: py_float_eval)

lemma lower_bound_text_examples:
  "lower_bound_text (RUPEE # str ''40-50 per kg'') = str ''40''"
  "lower_bound_text (RUPEE # str ''45 per kg'') = str ''45''"
  "lower_bound_text (RUPEE # str ''30-20 per kg'') = str ''30''"
  "lower_bound_text (str '''') = []"
  "lower_bound_text (str ''abc'') = str ''abc''"
  "lower_bound_text (str ''40-50-60'') = str ''40''"
  "lower_bound_text (str ''40-abc'') = str ''40''"
  "lower_bound_text (str ''nan'') = str ''nan''"
  by (simp_all add: cleaned_eval)

lemma parse_price_values:
  "parse_price (RUPEE # str ''40-50 per kg'') = Inr (Some (Finite 40))"
  "parse_price (RUPEE # str ''45 per kg'') = Inr (Some (Finite 45))"
  "parse_price (str '''') = Inr None"
  "parse_price (str ''abc'') = Inr None"
  "parse_price (RUPEE # str ''30-20 per kg'') = Inr (Some (Finite 30))"
  "parse_price (str ''40-50-60'') = Inr (Some (Finite 40))"
  "parse_price (str ''40-abc'') = Inr (Some (Finite 40))"
  "parse_price (str ''nan'') = Inr (Some NaN)"
  by (simp_all add: parse_price_eq lower_bound_text_examples py_float_30 py_float_40 py_float_45
      py_float_abc py_float_empty py_float_nan)

text \<open>
  Claim C8. \<^verbatim>\<open>parse_price\<close> gives 40.0 on the rupee sign followed by ``40-50 per kg'',
  45.0 on the rupee sign followed by ``45 per kg'', \<^verbatim>\<open>None\<close> on the empty text and on
  ``abc'', and 30.0 (the value before the first hyphen, not 20.0) on the rupee sign
  followed by ``30-20 per kg''.
\<close>

theorem parse_price_examples:
  "parse_price (RUPEE # str ''40-50 per kg'') = Inr (Some (Finite 40)) \<and>
   parse_price (RUPEE # str ''45 per kg'') = Inr (Some (Finite 45)) \<and>
   parse_price (str '''') = Inr None \<and>
   parse_price (str ''abc'') = Inr None \<and>
   parse_price (RUPEE # str ''30-20 per kg'') = Inr (Some (Finite 30))"
  by (simp add: parse_price_values)

text \<open>
  Claim C9. \<^verbatim>\<open>parse_price\<close> is total: on every text it returns to its caller, with a
  float or with \<^verbatim>\<open>None\<close>, and no exception leaves it (the result is never \<open>Inl\<close>).
\<close>

theorem parse_price_total:
  "parse_price s = Inr None \<or> (\<exists>x. parse_price s = Inr (Some x))"
  by (simp add: parse_price_def split: sum.splits)

text \<open>
  Claim C10. When the text that is left after the currency sign and the unit are removed
  and the blanks stripped begins with a hyphen, \<^verbatim>\<open>parse_price\<close> returns \<^verbatim>\<open>None\<close>: the
  hyphen is taken as the range delimiter and the candidate before it is empty.
\<close>

theorem parse_price_leading_hyphen:
  "cleaned s = HYPHEN # rest \<Longrightarrow> parse_price s = Inr None"
  by (simp add: parse_price_eq lower_bound_text_def py_float_empty)

lemma cleaned_negative_five: "cleaned (RUPEE # str ''-5 per kg'') = HYPHEN # str ''5''"
  by (simp add: cleaned_eval)

theorem parse_price_leading_hyphen_witness:
  "cleaned (RUPEE # str ''-5 per kg'') = HYPHEN # str ''5'' \<and>
   parse_price (RUPEE # str ''-5 per kg'') = Inr None"
  using parse_price_leading_hyphen [OF cleaned_negative_five] cleaned_negative_five by simp

subsection \<open>The characters \<^verbatim>\<open>float\<close> accepts\<close>

lemma parse_sign_chars:
  "parse_sign s = (neg, r) \<Longrightarrow> c \<in> set s \<Longrightarrow> c = 45 \<or> c = 43 \<or> c \<in> set r"
  by (auto simp: parse_sign_def split: list.splits if_splits)

lemma parse_inf_or_nan_chars:
  assumes "parse_inf_or_nan s = Some y" "c \<in> set s"
  shows "float_ascii c"
proof -
  obtain neg r where p: "parse_sign s = (neg, r)" by (cases "parse_sign s")
  with assms(1) have w: "map ascii_lower r = str ''inf'' \<or> map ascii_lower r = str ''infinity''
      \<or> map ascii_lower r = str ''nan''"
    by (auto simp: parse_inf_or_nan_def Let_def split: if_splits)
  from parse_sign_chars [OF p assms(2)] show ?thesis
  proof (elim disjE)
    assume "c \<in> set r"
    then have "ascii_lower c \<in> set (map ascii_lower r)" by simp
    with w have "ascii_lower c \<in> {105, 110, 102, 116, 121, 97}"
      by (auto simp: str_def)
    then show ?thesis by (auto simp: float_ascii_def)
  qed (simp_all add: float_ascii_def)
qed

lemma parse_exponent_chars:
  assumes "parse_exponent s = Some e" "c \<in> set s"
  shows "float_ascii c"
proof (cases s)
  case Nil
  with assms show ?thesis by simp
next
  case (Cons d ds)
  with assms(1) have d: "d = 101 \<or> d = 69"
    by (auto simp: parse_exponent_def split: if_splits)
  obtain neg r where p: "parse_sign ds = (neg, r)" by (cases "parse_sign ds")
  with assms(1) Cons d have r: "list_all is_digit r"
    by (auto simp: parse_exponent_def split: if_splits)
  from assms(2) Cons have "c = d \<or> c \<in> set ds" by simp
  with d parse_sign_chars [OF p, of c] r show ?thesis
    by (auto simp: float_ascii_def list_all_iff)
qed

lemma takeWhile_dropWhile_chars:
  "c \<in> set xs \<Longrightarrow> c \<in> set (takeWhile P xs) \<or> c \<in> set (dropWhile P xs)"
  using takeWhile_dropWhile_id [of P xs] by (metis Un_iff set_append)

lemma parse_decimal_chars:
  assumes "parse_decimal s = Some q" "c \<in> set s"
  shows "float_ascii c"
proof -
  obtain neg r where p: "parse_sign s = (neg, r)" by (cases "parse_sign s")
  let ?r1 = "dropWhile is_digit r"
  have digit: "float_ascii c" if "c \<in> set (takeWhile is_digit xs)" for xs
    using set_takeWhileD [OF that] by (simp add: float_ascii_def)
  have rest: "float_ascii c" if "c \<in> set ?r1"
  proof (cases ?r1)
    case Nil
    with that show ?thesis by simp
  next
    case (Cons d ds)
    show ?thesis
    proof (cases "d = 46")
      case True
      with assms(1) p Cons obtain e where e: "parse_exponent (dropWhile is_digit ds) = Some e"
        by (auto simp: parse_decimal_def Let_def split: if_splits option.splits)
      from that Cons have "c = d \<or> c \<in> set ds" by simp
      then show ?thesis
      proof
        assume "c = d" with True show ?thesis by (simp add: float_ascii_def)
      next
        assume "c \<in> set ds"
        from takeWhile_dropWhile_chars [OF this, of is_digit] show ?thesis
          using digit parse_exponent_chars [OF e] by blast
      qed
    next
      case False
      with assms(1) p Cons obtain e where e: "parse_exponent ?r1 = Some e"
        by (auto simp: parse_decimal_def Let_def split: if_splits option.splits)
      from parse_exponent_chars [OF e that] show ?thesis .
    qed
  qed
  from parse_sign_chars [OF p assms(2)] show ?thesis
  proof (elim disjE)
    assume "c \<in> set r"
    from takeWhile_dropWhile_chars [OF this, of is_digit] digit rest show ?thesis by blast
  qed (simp_all add: float_ascii_def)
qed

lemma dropWhile_keeps: "c \<in> set xs \<Longrightarrow> \<not> P c \<Longrightarrow> c \<in> set (dropWhile P xs)"
  by (induction xs) auto

lemma strip_c_space_keeps: "c \<in> set s \<Longrightarrow> \<not> c_isspace c \<Longrightarrow> c \<in> set (strip_c_space s)"
  by (simp add: strip_c_space_def dropWhile_keeps)

lemma drop_underscores_keeps:
  "drop_underscores prev s = Some u \<Longrightarrow> c \<in> set s \<Longrightarrow> c \<noteq> 95 \<Longrightarrow> c \<in> set u"
  by (induction s arbitrary: prev u) (auto split: if_splits)

lemma string_to_number_keeps:
  "string_to_number_with_underscores s = Some u \<Longrightarrow> c \<in> set s \<Longrightarrow> c \<noteq> 95 \<Longrightarrow> c \<in> set u"
  by (auto simp: string_to_number_with_underscores_def drop_underscores_keeps split: if_splits)

lemma transform_chars_keeps:
  "c \<in> set s \<Longrightarrow> c < 127 \<Longrightarrow> c \<in> set (transform_chars s) \<or> 63 \<in> set (transform_chars s)"
  by (induction s) (auto split: option.splits)

lemma transform_keeps:
  "c \<in> set s \<Longrightarrow> c < 127 \<Longrightarrow>
   c \<in> set (transform_decimal_and_space_to_ascii s) \<or>
   63 \<in> set (transform_decimal_and_space_to_ascii s)"
  by (simp add: transform_decimal_and_space_to_ascii_def transform_chars_keeps)

lemma DEL_not_space: "\<not> unicode_isspace 127"
  by (simp add: unicode_isspace_def)

lemma DEL_not_decimal: "unicode_todecimal 127 = None"
  by (simp add: unicode_todecimal_def nd_zeros_def)

lemma transform_chars_DEL: "127 \<in> set s \<Longrightarrow> 63 \<in> set (transform_chars s)"
  by (induction s) (auto simp: DEL_not_space DEL_not_decimal split: option.splits)

lemma transform_keeps_ascii:
  "c \<in> set s \<Longrightarrow> c < 128 \<Longrightarrow>
   c \<in> set (transform_decimal_and_space_to_ascii s) \<or>
   63 \<in> set (transform_decimal_and_space_to_ascii s)"
proof (cases "c = 127")
  case True
  assume "c \<in> set s"
  with True show ?thesis
    by (simp add: transform_decimal_and_space_to_ascii_def transform_chars_DEL)
next
  case False
  assume "c \<in> set s" "c < 128"
  with False transform_keeps [of c s] show ?thesis by simp
qed

lemma py_float_accepts:
  assumes "py_float s = Inr x" "c \<in> set (strip_c_space u)"
    "string_to_number_with_underscores (transform_decimal_and_space_to_ascii s) = Some u"
  shows "float_ascii c"
proof -
  from assms(1,3) have "(\<exists>q. parse_decimal (strip_c_space u) = Some q) \<or>
      (\<exists>y. parse_inf_or_nan (strip_c_space u) = Some y)"
    by (auto simp: py_float_def Let_def split: option.splits)
  with assms(2) show ?thesis
    using parse_decimal_chars parse_inf_or_nan_chars by blast
qed

lemma py_float_chars:
  assumes "py_float s = Inr x" "c \<in> set s" "c < 128"
  shows "float_ascii c"
proof (rule ccontr)
  assume n: "\<not> float_ascii c"
  from assms(1) obtain u
    where u: "string_to_number_with_underscores (transform_decimal_and_space_to_ascii s) = Some u"
    by (auto simp: py_float_def split: option.splits)
  have q: "\<not> float_ascii 63" by (simp add: float_ascii_def is_digit_def c_isspace_def ascii_lower_def)
  from n have c: "c \<noteq> 95" "\<not> c_isspace c" by (auto simp: float_ascii_def)
  from transform_keeps_ascii [OF assms(2,3)] show False
  proof
    assume "c \<in> set (transform_decimal_and_space_to_ascii s)"
    from strip_c_space_keeps [OF string_to_number_keeps [OF u this c(1)] c(2)]
      py_float_accepts [OF assms(1) _ u] n show False by blast
  next
    assume "63 \<in> set (transform_decimal_and_space_to_ascii s)"
    from string_to_number_keeps [OF u this] have "63 \<in> set u" by simp
    from strip_c_space_keeps [OF this] have "63 \<in> set (strip_c_space u)"
      by (simp add: c_isspace_def)
    from py_float_accepts [OF assms(1) this u] q show False by simp
  qed
qed
text \<open>
  Claim C3, as stated, fails: with several hyphens, or with letters after the first
  hyphen, \<^verbatim>\<open>parse_price\<close> returns the number before the first hyphen, a partial number,
  and not \<^verbatim>\<open>None\<close>.
\<close>

theorem parse_price_partial_number:
  "parse_price (str ''40-50-60'') = Inr (Some (Finite 40)) \<and>
   parse_price (str ''40-abc'') = Inr (Some (Finite 40))"
  by (simp add: parse_price_values)

text \<open>
  Claim C3, amended. The result is decided by the text before the first hyphen of the
  cleaned text alone (the whole cleaned text when it has no hyphen): \<^verbatim>\<open>None\<close> when
  \<^verbatim>\<open>float\<close> rejects that text, its float otherwise; what follows the first hyphen is
  not looked at. In particular the result is \<^verbatim>\<open>None\<close> whenever that text holds an ASCII
  character that is not a digit, a blank, a sign, the point, the underscore, \<^verbatim>\<open>e\<close>,
  \<^verbatim>\<open>E\<close> or a letter of \<^verbatim>\<open>inf\<close>, \<^verbatim>\<open>infinity\<close>, \<^verbatim>\<open>nan\<close>.
\<close>

theorem parse_price_decided_by_lower_bound:
  "parse_price s =
     Inr (case py_float (lower_bound_text s) of Inl e \<Rightarrow> None | Inr x \<Rightarrow> Some x) \<and>
   ((\<exists>c\<in>set (lower_bound_text s). c < 128 \<and> \<not> float_ascii c) \<longrightarrow> parse_price s = Inr None)"
proof -
  have "parse_price s = Inr None"
    if "c \<in> set (lower_bound_text s)" "c < 128" "\<not> float_ascii c" for c
  proof (cases "py_float (lower_bound_text s)")
    case (Inl e)
    then show ?thesis by (simp add: parse_price_eq)
  next
    case (Inr x)
    from py_float_chars [OF this that(1,2)] that(3) show ?thesis by simp
  qed
  then show ?thesis by (auto simp: parse_price_eq)
qed

lemma lower_bound_text_4x0: "lower_bound_text (str ''4x0-50'') = str ''4x0''"
  by (simp add: cleaned_eval)

theorem parse_price_decided_by_lower_bound_witness:
  "(\<exists>c\<in>set (lower_bound_text (str ''4x0-50'')). c < 128 \<and> \<not> float_ascii c) \<and>
   parse_price (str ''4x0-50'') = Inr None"
proof -
  have "120 \<in> set (lower_bound_text (str ''4x0-50''))"
    unfolding lower_bound_text_4x0 by (simp add: str_def)
  moreover have "\<not> float_ascii 120"
    by (simp add: float_ascii_def is_digit_def c_isspace_def ascii_lower_def)
  ultimately have e: "\<exists>c\<in>set (lower_bound_text (str ''4x0-50'')). c < 128 \<and> \<not> float_ascii c"
    by (intro bexI [of _ 120]) simp_all
  with parse_price_decided_by_lower_bound [of "str ''4x0-50''"] show ?thesis by blast
qed

section \<open>Properties of \<^verbatim>\<open>scrape_vegetable_prices\<close>\<close>

text \<open>The loop appends, to the records it was given, the records of the rows it reads.\<close>

lemma scrape_rows_eq: "scrape_rows table data = Inr (data @ List.map_filter row_record table)"
proof (induction table arbitrary: data)
  case Nil
  then show ?case by simp
next
  case (Cons cells rest)
  show ?case
  proof (cases "3 \<le> length cells")
    case False
    then show ?thesis
      by (simp add: Cons.IH row_record_def)
  next
    case True
    then show ?thesis
      by (cases "py_float (lower_bound_text (strip (cells ! 2)))")
         (simp_all add: Cons.IH row_record_def parse_price_eq Let_def)
  qed
qed

lemma scrape_try_table:
  "\<not> (400 \<le> status \<and> status < 600) \<Longrightarrow>
   scrape_try (GetReturns status (Some table)) = Inr (pd_DataFrame (spec_dataset table))"
  by (simp add: scrape_try_def raise_for_status_def bind_def scrape_rows_eq spec_dataset_def)

lemma scrape_table:
  "\<not> (400 \<le> status \<and> status < 600) \<Longrightarrow>
   scrape_vegetable_prices (GetReturns status (Some table))
     = Inr (pd_DataFrame (spec_dataset table))"
  by (simp add: scrape_vegetable_prices_def scrape_try_table)

lemma scrape_error_status:
  "400 \<le> status \<Longrightarrow> status < 600 \<Longrightarrow>
   scrape_vegetable_prices (GetReturns status found) = Inr (pd_DataFrame [])"
  by (simp add: scrape_vegetable_prices_def scrape_try_def raise_for_status_def bind_def)

lemma scrape_no_table:
  "scrape_vegetable_prices (GetReturns status None) = Inr (pd_DataFrame [])"
  by (simp add: scrape_vegetable_prices_def scrape_try_def raise_for_status_def bind_def)

lemma scrape_request_exception:
  "scrape_vegetable_prices (GetRaises RequestException) = Inr (pd_DataFrame [])"
  by (simp add: scrape_vegetable_prices_def scrape_try_def)

text \<open>Whatever the function returns is the empty frame or the frame of a table's records.\<close>

lemma scrape_shape:
  assumes "scrape_vegetable_prices response = Inr df"
  shows "df = pd_DataFrame [] \<or>
         (\<exists>status table. response = GetReturns status (Some table) \<and>
            df = pd_DataFrame (spec_dataset table))"
proof (cases response)
  case (GetRaises e)
  with assms show ?thesis
    by (auto simp: scrape_vegetable_prices_def scrape_try_def split: if_splits)
next
  case (GetReturns status found)
  show ?thesis
  proof (cases "400 \<le> status \<and> status < 600")
    case True
    with assms GetReturns show ?thesis by (simp add: scrape_error_status)
  next
    case False
    with assms GetReturns show ?thesis
      by (cases found) (auto simp: scrape_no_table scrape_table)
  qed
qed

lemma map_filter_all_None:
  "(\<forall>x\<in>set xs. f x = None) \<Longrightarrow> List.map_filter f xs = []"
  by (induction xs) simp_all

lemma row_record_Some:
  "row_record cells = Some r \<Longrightarrow>
   3 \<le> length cells \<and> Vegetable r = strip (cells ! 1) \<and> Price_Range r = strip (cells ! 2) \<and>
   parse_price (Price_Range r) = Inr (Some (Min_Price r))"
  by (auto simp: row_record_def split: if_splits sum.splits option.splits)

lemma spec_dataset_record:
  "r \<in> set (spec_dataset table) \<Longrightarrow> parse_price (Price_Range r) = Inr (Some (Min_Price r))"
  by (auto simp: spec_dataset_def List.map_filter_def dest: row_record_Some)

lemma spec_dataset_empty:
  assumes "\<forall>cells\<in>set (drop 2 table).
             3 \<le> length cells \<longrightarrow> parse_price (strip (cells ! 2)) = Inr None"
  shows "spec_dataset table = []"
  unfolding spec_dataset_def
proof (rule map_filter_all_None, rule ballI)
  fix cells assume "cells \<in> set (drop 2 table)"
  with assms show "row_record cells = None"
    by (auto simp: row_record_def)
qed

subsection \<open>The fixtures\<close>

lemma strip_examples:
  "strip (str '' Tomato '') = str ''Tomato''"
  "strip (str ''Onion'') = str ''Onion''"
  "strip (str ''Potato'') = str ''Potato''"
  "strip (str ''Carrot'') = str ''Carrot''"
  "strip (str ''abc'') = str ''abc''"
  "strip (str ''nan'') = str ''nan''"
  "strip (RUPEE # str ''40-50 per kg'') = RUPEE # str ''40-50 per kg''"
  "strip (RUPEE # str ''45 per kg'') = RUPEE # str ''45 per kg''"
  "strip (RUPEE # str ''30-20 per kg'') = RUPEE # str ''30-20 per kg''"
  by (simp_all add: strip_def str_def RUPEE_def unicode_isspace_def)

lemma spec_dataset_fixture: "spec_dataset fixture_table = fixture_records"
  by (simp add: spec_dataset_def fixture_table_def fixture_records_def row_record_def
      strip_examples parse_price_values)

lemma fixture_scrape:
  "scrape_vegetable_prices (GetReturns 200 (Some fixture_table))
     = Inr (pd_DataFrame fixture_records)"
  by (simp add: scrape_table spec_dataset_fixture)

lemma unparseable_table_rows:
  "\<forall>cells\<in>set (drop 2 unparseable_table).
     3 \<le> length cells \<longrightarrow> parse_price (strip (cells ! 2)) = Inr None"
  by (simp add: unparseable_table_def strip_examples parse_price_values)

lemma spec_dataset_nan: "spec_dataset nan_table = nan_records"
  by (simp add: spec_dataset_def nan_table_def nan_records_def row_record_def
      strip_examples parse_price_values)

lemma fixture_nan_scrape:
  "scrape_vegetable_prices (GetReturns 200 (Some nan_table)) = Inr (pd_DataFrame nan_records)"
  by (simp add: scrape_table spec_dataset_nan)

lemma nan_record_fields:
  "hd nan_records \<in> set (df_rows (pd_DataFrame nan_records))"
  "Price_Range (hd nan_records) = str ''nan''"
  "Min_Price (hd nan_records) = NaN"
  by (simp_all add: nan_records_def pd_DataFrame_def)

lemma series_min_NaN: "series_min [NaN] = NaN"
  by (simp add: series_min_def)

subsection \<open>Decimal texts and the floats they give\<close>

lemma py_float_decimal: "decimal_value s = Some v \<Longrightarrow> py_float s = Inr (round_binary64 v)"
  by (auto simp: decimal_value_def py_float_def Let_def split: option.splits)

lemma round_binary64_not_NaN: "round_binary64 v \<noteq> NaN"
  by (simp add: round_binary64_def Let_def)

lemma parse_inf_or_nan_not_Finite: "parse_inf_or_nan s \<noteq> Some (Finite q)"
  by (auto simp: parse_inf_or_nan_def Let_def split: prod.splits if_splits)

lemma py_float_Finite:
  assumes "py_float s = Inr (Finite q)"
  shows "\<exists>v. decimal_value s = Some v \<and> round_binary64 v = Finite q"
proof (cases "decimal_value s")
  case (Some v)
  with assms py_float_decimal [OF Some] show ?thesis by simp
next
  case None
  with assms show ?thesis
    by (auto simp: decimal_value_def py_float_def Let_def parse_inf_or_nan_not_Finite
        split: option.splits)
qed

lemma decimal_value_40: "decimal_value (str ''40'') = Some 40"
  by (simp add: decimal_value_def py_float_eval)

lemma decimal_value_nan: "decimal_value (str ''nan'') = None"
  by (simp add: decimal_value_def py_float_eval)

subsection \<open>The claims on the scraper\<close>

text \<open>
  Claim C7. On a response that passes \<^verbatim>\<open>raise_for_status\<close> and holds the table, the
  scraper returns the frame of exactly the records the specification describes: the first
  two rows skipped, rows of fewer than three cells skipped, the (stripped) texts of cells
  1 and 2 as name and raw price, a record appended exactly when the raw price parses, the
  row skipped otherwise. On the fixture of three rows that parse and one malformed row it
  returns the three records, the malformed row left out.
\<close>

theorem scrape_follows_spec:
  "(\<not> (400 \<le> status \<and> status < 600) \<longrightarrow>
      scrape_vegetable_prices (GetReturns status (Some table))
        = Inr (pd_DataFrame (spec_dataset table))) \<and>
   scrape_vegetable_prices (GetReturns 200 (Some fixture_table))
     = Inr (pd_DataFrame fixture_records) \<and>
   length fixture_records = 3"
  by (simp add: scrape_table spec_dataset_fixture fixture_records_def)

theorem scrape_follows_spec_witness:
  "\<not> (400 \<le> (200::nat) \<and> (200::nat) < 600) \<and>
   scrape_vegetable_prices (GetReturns 200 (Some fixture_table))
     = Inr (pd_DataFrame (spec_dataset fixture_table)) \<and>
   df_rows (pd_DataFrame (spec_dataset fixture_table)) = fixture_records"
  using scrape_follows_spec [of 200 fixture_table]
  by (simp add: spec_dataset_fixture pd_DataFrame_def)

text \<open>
  Claim C6, as stated, fails for a status that is not a success and that
  \<^verbatim>\<open>raise_for_status\<close> does not reject: a response with status 300 whose document holds
  the table is scraped like a successful one, and the frame returned is not empty.
\<close>

theorem scrape_status_300_not_empty:
  "scrape_vegetable_prices (GetReturns 300 (Some fixture_table))
     = Inr (pd_DataFrame fixture_records) \<and>
   df_rows (pd_DataFrame fixture_records) \<noteq> []"
  by (simp add: scrape_table spec_dataset_fixture) (simp add: pd_DataFrame_def fixture_records_def)

text \<open>
  Claim C6, amended. The scraper returns the empty frame, and raises nothing, when
  \<^verbatim>\<open>requests.get\<close> raises a \<^verbatim>\<open>RequestException\<close> (a connection error), when the status
  is one \<^verbatim>\<open>raise_for_status\<close> rejects (4xx, 5xx), when the document has no table of the
  wanted class, and when no row after the first two has three cells and a price that
  parses.
\<close>

theorem scrape_returns_empty:
  "scrape_vegetable_prices (GetRaises RequestException) = Inr (pd_DataFrame []) \<and>
   (400 \<le> status \<and> status < 600 \<longrightarrow>
      scrape_vegetable_prices (GetReturns status found) = Inr (pd_DataFrame [])) \<and>
   scrape_vegetable_prices (GetReturns status None) = Inr (pd_DataFrame []) \<and>
   ((\<forall>cells\<in>set (drop 2 table).
        3 \<le> length cells \<longrightarrow> parse_price (strip (cells ! 2)) = Inr None) \<longrightarrow>
      scrape_vegetable_prices (GetReturns status (Some table)) = Inr (pd_DataFrame [])) \<and>
   df_rows (pd_DataFrame []) = [] \<and> df_columns (pd_DataFrame []) = []"
proof -
  have "scrape_vegetable_prices (GetReturns status (Some table)) = Inr (pd_DataFrame [])"
    if "\<forall>cells\<in>set (drop 2 table).
          3 \<le> length cells \<longrightarrow> parse_price (strip (cells ! 2)) = Inr None"
  proof (cases "400 \<le> status \<and> status < 600")
    case True
    then show ?thesis by (simp add: scrape_error_status)
  next
    case False
    then show ?thesis by (simp add: scrape_table spec_dataset_empty [OF that])
  qed
  then show ?thesis
    by (simp add: scrape_request_exception scrape_error_status scrape_no_table pd_DataFrame_def)
qed

theorem scrape_returns_empty_witness:
  "(400 \<le> (404::nat) \<and> (404::nat) < 600) \<and>
   scrape_vegetable_prices (GetReturns 404 (Some fixture_table)) = Inr (pd_DataFrame []) \<and>
   list_all (\<lambda>cells. 3 \<le> length cells \<longrightarrow> parse_price (strip (cells ! 2)) = Inr None)
     (drop 2 unparseable_table) \<and>
   scrape_vegetable_prices (GetReturns 200 (Some unparseable_table)) = Inr (pd_DataFrame [])"
  using scrape_returns_empty [of 404 "Some fixture_table" unparseable_table]
    scrape_returns_empty [of 200 None unparseable_table] unparseable_table_rows
  by (simp add: list_all_iff)

text \<open>
  Claim C4, as stated, fails: a row whose price cell reads ``nan'' is not dropped. Its
  lowest bound, the text ``nan'', has no numeric value, yet \<^verbatim>\<open>float\<close> accepts it and the
  record is stored with the price NaN, which pandas takes for a missing value (the minimum
  of a series holding only that price is NaN).
\<close>

theorem nan_price_stored:
  "scrape_vegetable_prices (GetReturns 200 (Some nan_table)) = Inr (pd_DataFrame nan_records) \<and>
   hd nan_records \<in> set (df_rows (pd_DataFrame nan_records)) \<and>
   Price_Range (hd nan_records) = str ''nan'' \<and>
   decimal_value (lower_bound_text (Price_Range (hd nan_records))) = None \<and>
   Min_Price (hd nan_records) = NaN \<and>
   series_min [Min_Price (hd nan_records)] = NaN"
  unfolding nan_record_fields lower_bound_text_examples decimal_value_nan series_min_NaN
  using fixture_nan_scrape nan_record_fields(1) by simp

text \<open>
  Claim C4, amended. Every record of the frame the scraper returns holds, as its
  \<^verbatim>\<open>Min Price\<close>, the float that \<^verbatim>\<open>float\<close> gives for the lowest bound of its
  \<^verbatim>\<open>Price Range\<close> text, that is for the text before the first hyphen: \<^verbatim>\<open>parse_price\<close>
  of the stored text is the stored price and not \<^verbatim>\<open>None\<close>, so a text on which
  \<^verbatim>\<open>parse_price\<close> gives \<^verbatim>\<open>None\<close> is the text of no record (its row was dropped). When
  that lowest bound is a decimal number, the stored price is its numeric value, rounded to
  binary64, and is not NaN; and every finite stored price is the rounded numeric value of
  the decimal number that is the lowest bound of its text.
\<close>

theorem stored_min_price_invariant:
  "scrape_vegetable_prices response = Inr df \<Longrightarrow> r \<in> set (df_rows df) \<Longrightarrow>
   parse_price (Price_Range r) = Inr (Some (Min_Price r)) \<and>
   py_float (lower_bound_text (Price_Range r)) = Inr (Min_Price r) \<and>
   (\<forall>v. decimal_value (lower_bound_text (Price_Range r)) = Some v \<longrightarrow>
      Min_Price r = round_binary64 v \<and> Min_Price r \<noteq> NaN) \<and>
   (\<forall>q. Min_Price r = Finite q \<longrightarrow>
      (\<exists>v. decimal_value (lower_bound_text (Price_Range r)) = Some v \<and>
         round_binary64 v = Finite q))"
proof -
  assume a: "scrape_vegetable_prices response = Inr df" and r: "r \<in> set (df_rows df)"
  with scrape_shape [OF a] obtain table where "r \<in> set (spec_dataset table)"
    by (auto simp: pd_DataFrame_def)
  then have p: "parse_price (Price_Range r) = Inr (Some (Min_Price r))"
    by (rule spec_dataset_record)
  then have f: "py_float (lower_bound_text (Price_Range r)) = Inr (Min_Price r)"
    by (simp add: parse_price_eq split: sum.splits)
  have d: "Min_Price r = round_binary64 v \<and> Min_Price r \<noteq> NaN"
    if "decimal_value (lower_bound_text (Price_Range r)) = Some v" for v
    using py_float_decimal [OF that] f by (simp add: round_binary64_not_NaN)
  have q: "\<exists>v. decimal_value (lower_bound_text (Price_Range r)) = Some v \<and>
      round_binary64 v = Finite q" if "Min_Price r = Finite q" for q
    using py_float_Finite [of "lower_bound_text (Price_Range r)" q] f that by simp
  from p f d q show ?thesis by blast
qed

theorem stored_min_price_invariant_witness:
  "scrape_vegetable_prices (GetReturns 200 (Some fixture_table))
     = Inr (pd_DataFrame fixture_records) \<and>
   hd fixture_records \<in> set (df_rows (pd_DataFrame fixture_records)) \<and>
   decimal_value (lower_bound_text (Price_Range (hd fixture_records))) = Some 40 \<and>
   Min_Price (hd fixture_records) = round_binary64 40 \<and>
   Min_Price (hd fixture_records) \<noteq> NaN \<and>
   parse_price (Price_Range (hd fixture_records))
     = Inr (Some (Min_Price (hd fixture_records))) \<and>
   py_float (lower_bound_text (Price_Range (hd fixture_records)))
     = Inr (Min_Price (hd fixture_records))"
proof -
  have m: "hd fixture_records \<in> set (df_rows (pd_DataFrame fixture_records))"
    by (simp add: pd_DataFrame_def fixture_records_def)
  have d: "decimal_value (lower_bound_text (Price_Range (hd fixture_records))) = Some 40"
    by (simp add: fixture_records_def lower_bound_text_examples decimal_value_40)
  note i = stored_min_price_invariant [OF fixture_scrape m]
  from i d have "Min_Price (hd fixture_records) = round_binary64 40"
    "Min_Price (hd fixture_records) \<noteq> NaN"
    by blast+
  moreover from i have "parse_price (Price_Range (hd fixture_records))
      = Inr (Some (Min_Price (hd fixture_records)))"
    "py_float (lower_bound_text (Price_Range (hd fixture_records)))
      = Inr (Min_Price (hd fixture_records))"
    by blast+
  ultimately show ?thesis using fixture_scrape m d by blast
qed

section \<open>Properties of \<^verbatim>\<open>create_dashboard\<close> and \<^verbatim>\<open>update_charts\<close>\<close>

lemma dashboard_for_no_columns: "dashboard_for (pd_DataFrame []) = Inl KeyError"
  by (simp add: dashboard_for_def bind_def Min_Price_column_def pd_DataFrame_def)

text \<open>
  Claim C1. The claim asks that the dashboard be built, in a ``no data'' state, whenever
  the scraper's frame is empty. The code does not: the empty frame has no
  \<^verbatim>\<open>Min Price\<close> column, and the first argument of the range slider raises \<^verbatim>\<open>KeyError\<close>,
  which leaves \<^verbatim>\<open>create_dashboard\<close>.
\<close>

theorem create_dashboard_empty_dataset:
  "scrape_vegetable_prices response = Inr df \<Longrightarrow> df_rows df = [] \<Longrightarrow>
   create_dashboard response = Inl KeyError"
proof -
  assume a: "scrape_vegetable_prices response = Inr df" and e: "df_rows df = []"
  from scrape_shape [OF a] e have "df = pd_DataFrame []"
    by (auto simp: pd_DataFrame_def)
  with a show ?thesis
    by (simp add: create_dashboard_def bind_def dashboard_for_no_columns)
qed

theorem create_dashboard_empty_dataset_witness:
  "scrape_vegetable_prices (GetRaises RequestException) = Inr (pd_DataFrame []) \<and>
   df_rows (pd_DataFrame []) = [] \<and>
   create_dashboard (GetRaises RequestException) = Inl KeyError"
proof -
  have r: "df_rows (pd_DataFrame []) = []" by (simp add: pd_DataFrame_def)
  from create_dashboard_empty_dataset [OF scrape_request_exception r] scrape_request_exception r
  show ?thesis by simp
qed

subsection \<open>The order of floats and the extremes of a series\<close>

lemma float_le_refl: "x \<noteq> NaN \<Longrightarrow> float_le x x"
  by (cases x) simp_all

lemma float_le_total: "x \<noteq> NaN \<Longrightarrow> y \<noteq> NaN \<Longrightarrow> float_le x y \<or> float_le y x"
  by (cases x; cases y) auto

lemma float_le_trans: "float_le x y \<Longrightarrow> float_le y z \<Longrightarrow> float_le x z"
  by (cases x; cases y; cases z) auto

lemma float_le_NaN [simp]: "\<not> float_le x NaN" "\<not> float_le NaN x"
  by (cases x; simp)+

lemma fold_float_min:
  "acc \<noteq> NaN \<Longrightarrow> \<forall>x\<in>set ys. x \<noteq> NaN \<Longrightarrow>
   fold float_min ys acc \<noteq> NaN \<and> float_le (fold float_min ys acc) acc \<and>
   (\<forall>x\<in>set ys. float_le (fold float_min ys acc) x)"
proof (induction ys arbitrary: acc)
  case Nil
  then show ?case by (simp add: float_le_refl)
next
  case (Cons y ys)
  let ?a = "float_min y acc"
  from Cons.prems have y: "y \<noteq> NaN" and ys: "\<forall>x\<in>set ys. x \<noteq> NaN" by simp_all
  from Cons.prems y have a: "?a \<noteq> NaN" by (simp add: float_min_def)
  from float_le_total [OF y Cons.prems(1)] have ay: "float_le ?a y" and aa: "float_le ?a acc"
    by (auto simp: float_min_def float_le_refl y Cons.prems(1))
  from Cons.IH [OF a ys] have ih: "fold float_min ys ?a \<noteq> NaN"
    "float_le (fold float_min ys ?a) ?a" "\<forall>x\<in>set ys. float_le (fold float_min ys ?a) x"
    by simp_all
  from ih(2) ay aa have "float_le (fold float_min ys ?a) y" "float_le (fold float_min ys ?a) acc"
    by (blast intro: float_le_trans)+
  with ih show ?case by simp
qed

lemma fold_float_max:
  "acc \<noteq> NaN \<Longrightarrow> \<forall>x\<in>set ys. x \<noteq> NaN \<Longrightarrow>
   fold float_max ys acc \<noteq> NaN \<and> float_le acc (fold float_max ys acc) \<and>
   (\<forall>x\<in>set ys. float_le x (fold float_max ys acc))"
proof (induction ys arbitrary: acc)
  case Nil
  then show ?case by (simp add: float_le_refl)
next
  case (Cons y ys)
  let ?a = "float_max y acc"
  from Cons.prems have y: "y \<noteq> NaN" and ys: "\<forall>x\<in>set ys. x \<noteq> NaN" by simp_all
  from Cons.prems y have a: "?a \<noteq> NaN" by (simp add: float_max_def)
  from float_le_total [OF y Cons.prems(1)] have ay: "float_le y ?a" and aa: "float_le acc ?a"
    by (auto simp: float_max_def float_le_refl y Cons.prems(1))
  from Cons.IH [OF a ys] have ih: "fold float_max ys ?a \<noteq> NaN"
    "float_le ?a (fold float_max ys ?a)" "\<forall>x\<in>set ys. float_le x (fold float_max ys ?a)"
    by simp_all
  from ih(2) ay aa have "float_le y (fold float_max ys ?a)" "float_le acc (fold float_max ys ?a)"
    by (blast intro: float_le_trans)+
  with ih show ?case by simp
qed

lemma series_min_le:
  assumes "\<forall>x\<in>set xs. x \<noteq> NaN" "x \<in> set xs"
  shows "float_le (series_min xs) x"
proof (cases xs)
  case Nil
  with assms show ?thesis by simp
next
  case (Cons y ys)
  from assms(1) have f: "filter (\<lambda>x. x \<noteq> NaN) xs = xs" by simp
  from Cons assms have "y \<noteq> NaN" "\<forall>x\<in>set ys. x \<noteq> NaN" by simp_all
  from fold_float_min [OF this] assms(2) Cons show ?thesis
    unfolding series_min_def f by auto
qed

lemma series_max_ge:
  assumes "\<forall>x\<in>set xs. x \<noteq> NaN" "x \<in> set xs"
  shows "float_le x (series_max xs)"
proof (cases xs)
  case Nil
  with assms show ?thesis by simp
next
  case (Cons y ys)
  from assms(1) have f: "filter (\<lambda>x. x \<noteq> NaN) xs = xs" by simp
  from Cons assms have "y \<noteq> NaN" "\<forall>x\<in>set ys. x \<noteq> NaN" by simp_all
  from fold_float_max [OF this] assms(2) Cons show ?thesis
    unfolding series_max_def f by auto
qed

lemma boolean_index_rows:
  "map fst (filter snd (zip xs (map2 (\<and>) (map f xs) (map h xs))))
     = filter (\<lambda>r. f r \<and> h r) xs"
  by (induction xs) simp_all

lemma update_charts_eq:
  assumes "''Min Price'' \<in> set (df_columns df)"
  shows "update_charts df [lo, hi] =
           Inr (px_bar (df\<lparr>df_rows := filter (in_range lo hi) (df_rows df)\<rparr>),
                px_histogram (df\<lparr>df_rows := filter (in_range lo hi) (df_rows df)\<rparr>),
                filter (in_range lo hi) (df_rows df))"
proof -
  have "in_range lo hi = (\<lambda>r. float_ge (Min_Price r) lo \<and> float_le (Min_Price r) hi)"
    by (auto simp: in_range_def float_ge_def)
  with assms show ?thesis
    by (simp add: update_charts_def bind_def Min_Price_column_def getitem_def boolean_index_def
        boolean_index_rows Let_def)
qed

lemma dashboard_for_Inr:
  assumes "dashboard_for df = Inr app"
  shows "''Min Price'' \<in> set (df_columns df)" "callback_df app = df"
    "slider_value (price_filter app)
       = [series_min (map Min_Price (df_rows df)), series_max (map Min_Price (df_rows df))]"
  using assms
  by (auto simp: dashboard_for_def bind_def Min_Price_column_def split: if_splits sum.splits)

subsection \<open>The dashboards of the fixtures\<close>

lemma py_str_int_30: "py_str_int 30 = str ''30''"
  by (simp add: py_str_int_def nat_digits.simps str_def)

lemma py_range_examples: "py_range 30 45 20 = [30]" "py_range 40 40 20 = []"
  by (simp_all add: py_range_def)

lemma dashboard_for_fixture: "dashboard_for (pd_DataFrame fixture_records) = Inr fixture_dashboard"
  by (simp add: dashboard_for_def bind_def Min_Price_column_def pd_DataFrame_def
      fixture_records_def fixture_dashboard_def series_min_def series_max_def float_min_def
      float_max_def py_int_def py_range_examples py_str_int_30)

lemma dashboard_for_nan: "dashboard_for (pd_DataFrame nan_records) = Inr nan_dashboard"
  by (simp add: dashboard_for_def bind_def Min_Price_column_def pd_DataFrame_def
      nan_records_def nan_dashboard_def series_min_def series_max_def float_min_def
      float_max_def py_int_def py_range_examples)

lemma create_dashboard_nan: "create_dashboard (GetReturns 200 (Some nan_table)) = Inr nan_dashboard"
  by (simp add: create_dashboard_def bind_def scrape_table spec_dataset_nan dashboard_for_nan)

subsection \<open>The claims on the filter\<close>

text \<open>
  Claim C2. The callback exists in a dashboard that was built, over the frame the
  dashboard holds. Called with a range \<open>[lo, hi]\<close> it returns exactly the records of
  that frame whose price \<open>p\<close> has \<open>lo \<le> p\<close> and \<open>p \<le> hi\<close>, both ends included, in
  their order: every record returned is within the range and every record within the range
  is returned. The two figures are drawn from the same records. (This holds whether or
  not \<open>lo \<le> hi\<close>.)
\<close>

theorem update_charts_filters_range:
  "dashboard_for df = Inr app \<Longrightarrow>
   update_charts (callback_df app) [lo, hi] =
     Inr (px_bar (df\<lparr>df_rows := filter (in_range lo hi) (df_rows df)\<rparr>),
          px_histogram (df\<lparr>df_rows := filter (in_range lo hi) (df_rows df)\<rparr>),
          filter (in_range lo hi) (df_rows df))"
  by (simp add: dashboard_for_Inr update_charts_eq)

theorem update_charts_filters_range_witness:
  "dashboard_for (pd_DataFrame fixture_records) = Inr fixture_dashboard \<and>
   update_charts (callback_df fixture_dashboard) [Finite 35, Finite 45] =
     Inr (px_bar (pd_DataFrame (take 2 fixture_records)),
          px_histogram (pd_DataFrame (take 2 fixture_records)),
          take 2 fixture_records)"
  using update_charts_filters_range [OF dashboard_for_fixture, of "Finite 35" "Finite 45"]
    dashboard_for_fixture
  by (simp add: fixture_records_def in_range_def pd_DataFrame_def)

text \<open>
  Claim C5, as stated, fails: the dataset scraped from \<open>nan_table\<close> is not empty, its
  dashboard is built, and the callback called with the slider's initial value, the
  minimum and the maximum of the prices as pandas computes them, returns the dataset
  without its first record, whose price is NaN.
\<close>

theorem full_range_drops_nan:
  "create_dashboard (GetReturns 200 (Some nan_table)) = Inr nan_dashboard \<and>
   df_rows (callback_df nan_dashboard) = nan_records \<and>
   nan_records \<noteq> [] \<and>
   slider_value (price_filter nan_dashboard)
     = [series_min (map Min_Price nan_records), series_max (map Min_Price nan_records)] \<and>
   update_charts (callback_df nan_dashboard) (slider_value (price_filter nan_dashboard)) =
     Inr (px_bar (pd_DataFrame (tl nan_records)), px_histogram (pd_DataFrame (tl nan_records)),
          tl nan_records) \<and>
   tl nan_records \<noteq> nan_records"
proof -
  have c: "''Min Price'' \<in> set (df_columns (pd_DataFrame nan_records))"
    by (simp add: pd_DataFrame_def nan_records_def)
  have "update_charts (pd_DataFrame nan_records) [Finite 40, Finite 40] =
     Inr (px_bar (pd_DataFrame (tl nan_records)), px_histogram (pd_DataFrame (tl nan_records)),
          tl nan_records)"
    unfolding update_charts_eq [OF c]
    by (simp add: in_range_def nan_records_def pd_DataFrame_def)
  then show ?thesis
    by (simp add: create_dashboard_nan nan_dashboard_def)
       (simp add: nan_records_def pd_DataFrame_def series_min_def series_max_def)
qed

text \<open>
  Claim C5, amended. For every non-empty dataset none of whose prices is NaN, the
  callback called with the minimum and the maximum of the prices returns the whole
  dataset, the same records in the same order; in a dashboard that was built, that range
  is the slider's initial value.
\<close>

theorem full_range_identity:
  "(data \<noteq> [] \<and> (\<forall>r\<in>set data. Min_Price r \<noteq> NaN) \<longrightarrow>
      update_charts (pd_DataFrame data)
          [series_min (map Min_Price data), series_max (map Min_Price data)] =
        Inr (px_bar (pd_DataFrame data), px_histogram (pd_DataFrame data), data)) \<and>
   (dashboard_for df = Inr app \<and> (\<forall>r\<in>set (df_rows df). Min_Price r \<noteq> NaN) \<longrightarrow>
      update_charts (callback_df app) (slider_value (price_filter app)) =
        Inr (px_bar df, px_histogram df, df_rows df))"
proof -
  have all: "filter (in_range (series_min (map Min_Price xs)) (series_max (map Min_Price xs))) xs = xs"
    if "\<forall>r\<in>set xs. Min_Price r \<noteq> NaN" for xs
  proof -
    from that have n: "\<forall>x\<in>set (map Min_Price xs). x \<noteq> NaN" by simp
    have "in_range (series_min (map Min_Price xs)) (series_max (map Min_Price xs)) r"
      if "r \<in> set xs" for r
      using series_min_le [OF n, of "Min_Price r"] series_max_ge [OF n, of "Min_Price r"] that
      by (simp add: in_range_def)
    then show ?thesis by simp
  qed
  have general: "update_charts d
          [series_min (map Min_Price (df_rows d)), series_max (map Min_Price (df_rows d))] =
        Inr (px_bar d, px_histogram d, df_rows d)"
    if "''Min Price'' \<in> set (df_columns d)" "\<forall>r\<in>set (df_rows d). Min_Price r \<noteq> NaN" for d
    by (simp add: update_charts_eq [OF that(1)] all [OF that(2)])
  have a: "update_charts (pd_DataFrame data)
          [series_min (map Min_Price data), series_max (map Min_Price data)] =
        Inr (px_bar (pd_DataFrame data), px_histogram (pd_DataFrame data), data)"
    if "data \<noteq> []" "\<forall>r\<in>set data. Min_Price r \<noteq> NaN"
    using general [of "pd_DataFrame data"] that by (simp add: pd_DataFrame_def)
  have b: "update_charts (callback_df app) (slider_value (price_filter app)) =
        Inr (px_bar df, px_histogram df, df_rows df)"
    if "dashboard_for df = Inr app" "\<forall>r\<in>set (df_rows df). Min_Price r \<noteq> NaN"
    using general [of df] dashboard_for_Inr [OF that(1)] that(2) by simp
  from a b show ?thesis by blast
qed

lemma fixture_no_nan: "\<forall>r\<in>set fixture_records. Min_Price r \<noteq> NaN"
  by (simp add: fixture_records_def)

theorem full_range_identity_witness:
  "fixture_records \<noteq> [] \<and> NaN \<notin> Min_Price ` set fixture_records \<and>
   dashboard_for (pd_DataFrame fixture_records) = Inr fixture_dashboard \<and>
   update_charts (pd_DataFrame fixture_records)
       [series_min (map Min_Price fixture_records), series_max (map Min_Price fixture_records)] =
     Inr (px_bar (pd_DataFrame fixture_records), px_histogram (pd_DataFrame fixture_records),
          fixture_records) \<and>
   update_charts (callback_df fixture_dashboard) (slider_value (price_filter fixture_dashboard)) =
     Inr (px_bar (pd_DataFrame fixture_records), px_histogram (pd_DataFrame fixture_records),
          fixture_records)"
proof -
  have ne: "fixture_records \<noteq> []" by (simp add: fixture_records_def)
  have r: "df_rows (pd_DataFrame fixture_records) = fixture_records" by (simp add: pd_DataFrame_def)
  from full_range_identity [of fixture_records "pd_DataFrame fixture_records" fixture_dashboard]
    ne fixture_no_nan dashboard_for_fixture r
  show ?thesis by auto
qed

end
